theory Spec2Isabelle
  imports Main "HOL-Library.Word" "HOL-Library.Sublist"
begin

section \<open>Values, exceptions and the Python library\<close>

text \<open>
  The values that travel between \<^verbatim>\<open>rpc/client.py\<close> and \<^verbatim>\<open>rpc/server.py\<close> are the ones
  MessagePack can carry: \<^verbatim>\<open>None\<close>, booleans, integers, floats (kept as their 64-bit
  pattern), text, byte strings, lists and string-keyed dictionaries. A dictionary is an
  association list in insertion order; text and byte strings are both character lists.
\<close>

type_synonym bytes = string

datatype pyval =
    PNone
  | PBool bool
  | PInt int
  | PFloat "64 word"
  | PStr string
  | PBytes bytes
  | PList "pyval list"
  | PDict "(string \<times> pyval) list"

text \<open>
  Exceptions carry their class and the text \<^verbatim>\<open>str(e)\<close>. The class matters twice in the
  source: \<^verbatim>\<open>except Exception\<close> does not catch the classes that derive from
  \<^verbatim>\<open>BaseException\<close> only, and \<^verbatim>\<open>except socket.error\<close> catches \<^verbatim>\<open>OSError\<close> and its
  subclasses only.
\<close>

datatype exc_class =
    SystemExit
  | KeyboardInterrupt
  | GeneratorExit
  | OSError
  | ConnectionError
  | RuntimeError
  | TypeError
  | ValueError
  | AttributeError
  | OverflowError
  | KeyError
  | UserError string

datatype exn = Exn (exc_class: exc_class) (exc_str: string)

fun is_Exception :: "exc_class \<Rightarrow> bool" where
  "is_Exception SystemExit = False"
| "is_Exception KeyboardInterrupt = False"
| "is_Exception GeneratorExit = False"
| "is_Exception _ = True"

fun is_socket_error :: "exc_class \<Rightarrow> bool" where
  "is_socket_error OSError = True"
| "is_socket_error ConnectionError = True"
| "is_socket_error _ = False"

text \<open>
  A bound function receives its positional arguments and its keyword arguments and
  either returns a value (\<open>Inr\<close>) or raises (\<open>Inl\<close>). Its outcome depends on its
  arguments only, and it returns.
\<close>

type_synonym callable = "pyval list \<Rightarrow> (string \<times> pyval) list \<Rightarrow> exn + pyval"

text \<open>
  What the source takes from Python and from the \<^verbatim>\<open>msgpack\<close> and \<^verbatim>\<open>traceback\<close> modules
  is a parameter of the model: \<^verbatim>\<open>repr\<close>, \<^verbatim>\<open>traceback.format_exc\<close>, \<^verbatim>\<open>msgpack.packb\<close>,
  \<^verbatim>\<open>msgpack.unpackb\<close>, and \<open>fault_text\<close>, the message of the exception that the
  interpreter raises when the named operation does not apply to the given value. The
  conversions of the built-in constructors that read text or compute with floats are
  parameters as well: \<^verbatim>\<open>int\<close> and \<^verbatim>\<open>float\<close> of text or bytes, \<^verbatim>\<open>int\<close> of a float,
  \<^verbatim>\<open>float\<close> of an integer, and \<^verbatim>\<open>dict\<close> of a list of items.
\<close>

record pylib =
  repr :: "pyval \<Rightarrow> string"
  format_exc :: "exn \<Rightarrow> string"
  packb :: "pyval \<Rightarrow> exn + bytes"
  unpackb :: "bytes \<Rightarrow> exn + pyval"
  fault_text :: "string \<Rightarrow> pyval \<Rightarrow> string"
  int_of_text :: "pyval \<Rightarrow> exn + int"
  int_of_float :: "64 word \<Rightarrow> exn + int"
  float_of_int :: "int \<Rightarrow> exn + 64 word"
  float_of_text :: "pyval \<Rightarrow> exn + 64 word"
  dict_of_items :: "pyval list \<Rightarrow> exn + (pyval \<times> pyval) list"

text \<open>\<^verbatim>\<open>str(v)\<close>: text is itself, every other value of the model prints as its \<^verbatim>\<open>repr\<close>.\<close>

definition py_str :: "pylib \<Rightarrow> pyval \<Rightarrow> string" where
  "py_str lib v = (case v of PStr s \<Rightarrow> s | _ \<Rightarrow> repr lib v)"

definition apostrophe :: string where
  "apostrophe = [CHR 0x27]"

text \<open>\<^verbatim>\<open>d.get(k, default)\<close> on a dictionary.\<close>

definition dict_get :: "(string \<times> pyval) list \<Rightarrow> string \<Rightarrow> pyval \<Rightarrow> pyval" where
  "dict_get d k dflt = (case map_of d k of Some v \<Rightarrow> v | None \<Rightarrow> dflt)"

text \<open>
  \<^verbatim>\<open>try: body except Exception as e: handler(e)\<close>: an exception that is not an
  \<^verbatim>\<open>Exception\<close> passes through.
\<close>

definition except_Exception :: "exn + 'a \<Rightarrow> (exn \<Rightarrow> exn + 'a) \<Rightarrow> exn + 'a" where
  "except_Exception body handler =
     (case body of
        Inr v \<Rightarrow> Inr v
      | Inl e \<Rightarrow> if is_Exception (exc_class e) then handler e else Inl e)"

text \<open>Sequencing of two steps of which the first may raise.\<close>

definition and_then :: "exn + 'a \<Rightarrow> ('a \<Rightarrow> exn + 'b) \<Rightarrow> exn + 'b" where
  "and_then r f = (case r of Inl e \<Rightarrow> Inl e | Inr v \<Rightarrow> f v)"

section \<open>The server: \<^verbatim>\<open>Server._process_request\<close>\<close>

type_synonym envelope = "(string \<times> pyval) list"

text \<open>
  The call of the bound function (server.py, lines 112 to 117): \<^verbatim>\<open>func(*params)\<close> for a
  list, \<^verbatim>\<open>func(**params)\<close> for a dictionary, \<^verbatim>\<open>func(params)\<close> otherwise.
\<close>

definition invoke :: "callable \<Rightarrow> pyval \<Rightarrow> exn + pyval" where
  "invoke func params =
     (case params of
        PList xs \<Rightarrow> func xs []
      | PDict kw \<Rightarrow> func [] kw
      | _ \<Rightarrow> func [params] [])"

text \<open>
  The body of the \<^verbatim>\<open>try\<close> block of \<^verbatim>\<open>_process_request\<close> (server.py, lines 103 to 119).
  A request that is not a dictionary has no \<^verbatim>\<open>get\<close>; a method name that is a list or a
  dictionary cannot be looked up in \<^verbatim>\<open>self.functions\<close>; a name that is not text is in no
  dispatch table, whose keys are text.
\<close>

definition process_request_try :: "pylib \<Rightarrow> (string \<rightharpoonup> callable) \<Rightarrow> pyval \<Rightarrow> exn + envelope" where
  "process_request_try lib functions request =
     (case request of
        PDict d \<Rightarrow>
          (let method_name = dict_get d ''method'' PNone;
               params = dict_get d ''params'' (PList [])
           in if (case method_name of PList _ \<Rightarrow> True | PDict _ \<Rightarrow> True | _ \<Rightarrow> False)
              then Inl (Exn TypeError (fault_text lib ''hash'' method_name))
              else
                (case (case method_name of PStr name \<Rightarrow> functions name | _ \<Rightarrow> None) of
                   None \<Rightarrow>
                     Inr [(''error'', PStr (''Method '' @ apostrophe @ py_str lib method_name
                                            @ apostrophe @ '' not found''))]
                 | Some func \<Rightarrow>
                     (case invoke func params of
                        Inl e \<Rightarrow> Inl e
                      | Inr result \<Rightarrow> Inr [(''result'', result)])))
      | _ \<Rightarrow> Inl (Exn AttributeError (fault_text lib ''get'' request)))"

text \<open>
  The dictionary that both \<^verbatim>\<open>except Exception as e\<close> clauses of server.py build (lines 79
  to 82 and 122 to 125).
\<close>

definition error_response :: "pylib \<Rightarrow> exn \<Rightarrow> envelope" where
  "error_response lib e =
     [(''error'', PStr (exc_str e)), (''traceback'', PStr (format_exc lib e))]"

definition process_request :: "pylib \<Rightarrow> (string \<rightharpoonup> callable) \<Rightarrow> pyval \<Rightarrow> exn + envelope" where
  "process_request lib functions request =
     except_Exception (process_request_try lib functions request)
       (\<lambda>e. Inr (error_response lib e))"

section \<open>The client: \<^verbatim>\<open>RPCResult\<close> and \<^verbatim>\<open>Client\<close>\<close>

datatype RPCResult = RPCResult (the_value: pyval)








record client =
  host :: string
  port :: nat
  socket :: "nat option"

text \<open>The request that \<^verbatim>\<open>Client.call\<close> prepares (client.py, lines 107 to 119).\<close>

definition call_params :: "pyval list \<Rightarrow> (string \<times> pyval) list \<Rightarrow> pyval" where
  "call_params args kwargs =
     (if args \<noteq> [] \<and> kwargs \<noteq> [] then PList (args @ [PDict kwargs])
      else if kwargs \<noteq> [] then PDict kwargs
      else PList args)"

definition call_request :: "string \<Rightarrow> pyval list \<Rightarrow> (string \<times> pyval) list \<Rightarrow> pyval" where
  "call_request method_name args kwargs =
     PDict [(''method'', PStr method_name), (''params'', call_params args kwargs)]"

text \<open>
  The operations that the client applies to the decoded response, which may be any value:
  \<^verbatim>\<open>key in response\<close>, \<^verbatim>\<open>response[key]\<close>, \<^verbatim>\<open>error_msg += text\<close> and
  \<^verbatim>\<open>response.get("result")\<close>.
\<close>

fun is_substring :: "string \<Rightarrow> string \<Rightarrow> bool" where
  "is_substring xs [] = (xs = [])"
| "is_substring xs (y # ys) = (take (length xs) (y # ys) = xs \<or> is_substring xs ys)"

definition py_in :: "pylib \<Rightarrow> string \<Rightarrow> pyval \<Rightarrow> exn + bool" where
  "py_in lib key response =
     (case response of
        PDict d \<Rightarrow> Inr (key \<in> set (map fst d))
      | PList xs \<Rightarrow> Inr (PStr key \<in> set xs)
      | PStr s \<Rightarrow> Inr (is_substring key s)
      | _ \<Rightarrow> Inl (Exn TypeError (fault_text lib ''in'' response)))"

definition py_getitem :: "pylib \<Rightarrow> pyval \<Rightarrow> string \<Rightarrow> exn + pyval" where
  "py_getitem lib response key =
     (case response of
        PDict d \<Rightarrow>
          (case map_of d key of
             Some v \<Rightarrow> Inr v
           | None \<Rightarrow> Inl (Exn KeyError (apostrophe @ key @ apostrophe)))
      | _ \<Rightarrow> Inl (Exn TypeError (fault_text lib ''getitem'' response)))"

definition py_iadd :: "pylib \<Rightarrow> pyval \<Rightarrow> string \<Rightarrow> exn + pyval" where
  "py_iadd lib error_msg text =
     (case error_msg of
        PStr s \<Rightarrow> Inr (PStr (s @ text))
      | PList xs \<Rightarrow> Inr (PList (xs @ map (\<lambda>c. PStr [c]) text))
      | _ \<Rightarrow> Inl (Exn TypeError (fault_text lib ''iadd'' error_msg)))"

definition py_get_result :: "pylib \<Rightarrow> pyval \<Rightarrow> exn + pyval" where
  "py_get_result lib response =
     (case response of
        PDict d \<Rightarrow> Inr (dict_get d ''result'' PNone)
      | _ \<Rightarrow> Inl (Exn AttributeError (fault_text lib ''get'' response)))"

text \<open>Lines 130 to 138 of client.py, before the \<^verbatim>\<open>except\<close> clauses of \<^verbatim>\<open>call\<close>.\<close>

definition check_response :: "pylib \<Rightarrow> pyval \<Rightarrow> exn + RPCResult" where
  "check_response lib response =
     and_then (py_in lib ''error'' response) (\<lambda>has_error.
       if has_error then
         and_then (py_getitem lib response ''error'') (\<lambda>error_msg.
         and_then (py_in lib ''traceback'' response) (\<lambda>has_traceback.
         and_then
           (if has_traceback then
              and_then (py_getitem lib response ''traceback'') (\<lambda>tb.
                py_iadd lib error_msg ([CHR 0x0A] @ ''Server traceback:'' @ [CHR 0x0A] @ py_str lib tb))
            else Inr error_msg) (\<lambda>error_msg.
         Inl (Exn RuntimeError (''Remote call failed: '' @ py_str lib error_msg)))))
       else
         and_then (py_get_result lib response) (\<lambda>result. Inr (RPCResult result)))"

text \<open>
  \<^verbatim>\<open>Client.call\<close>. The connection is the function \<open>wire\<close>: what \<^verbatim>\<open>recv\<close> returns
  after \<^verbatim>\<open>send\<close> of the given bytes, or the exception that one of the two raises.
\<close>

definition call ::
  "pylib \<Rightarrow> (bytes \<Rightarrow> exn + bytes) \<Rightarrow> client \<Rightarrow> string \<Rightarrow> pyval list \<Rightarrow> (string \<times> pyval) list
     \<Rightarrow> exn + RPCResult" where
  "call lib wire c method_name args kwargs =
     (if socket c = None then Inl (Exn ConnectionError ''Not connected to server'')
      else
        (case and_then (packb lib (call_request method_name args kwargs)) (\<lambda>request_data.
              and_then (wire request_data) (\<lambda>response_data.
              and_then (unpackb lib response_data) (\<lambda>response.
              check_response lib response))) of
           Inr r \<Rightarrow> Inr r
         | Inl e \<Rightarrow>
             if is_socket_error (exc_class e)
             then Inl (Exn ConnectionError (''Communication error: '' @ exc_str e))
             else if is_Exception (exc_class e)
             then Inl (Exn RuntimeError (''Call failed: '' @ exc_str e))
             else Inl e))"

text \<open>
  \<^verbatim>\<open>Client.close\<close>, on the client and the set of sockets that are open in the process.
  \<open>failure\<close> says whether \<^verbatim>\<open>self.socket.close()\<close> raises, should it be called; then the
  assignment after it is not reached.
\<close>

definition close :: "exn option \<Rightarrow> client \<times> nat set \<Rightarrow> exn + client \<times> nat set" where
  "close failure st =
     (case socket (fst st) of
        Some s \<Rightarrow>
          (case failure of
             Some e \<Rightarrow> Inl e
           | None \<Rightarrow> Inr ((fst st)\<lparr>socket := None\<rparr>, snd st - {s}))
      | None \<Rightarrow> Inr st)"

section \<open>The server: listener and connection handlers\<close>

text \<open>
  The fields of \<^verbatim>\<open>Server\<close> that its methods read after construction. A socket is the
  number that identifies it in the set of sockets open in the process.
\<close>

record server =
  "functions" :: "string \<rightharpoonup> callable"
  server_socket :: "nat option"
  running :: bool

definition bind :: "server \<Rightarrow> string \<Rightarrow> callable \<Rightarrow> server" where
  "bind self name func = self\<lparr>functions := (functions self)(name \<mapsto> func)\<rparr>"

text \<open>\<^verbatim>\<open>Server.stop\<close>: clears the flag and closes the listening socket, nothing else.\<close>

definition stop :: "server \<times> nat set \<Rightarrow> server \<times> nat set" where
  "stop st =
     ((fst st)\<lparr>running := False\<rparr>,
      (case server_socket (fst st) of Some s \<Rightarrow> snd st - {s} | None \<Rightarrow> snd st))"

text \<open>
  One pass through the inner \<^verbatim>\<open>try\<close> statement of \<^verbatim>\<open>_handle_client\<close> (server.py, lines
  66 to 84) for a non-empty read. \<open>send1\<close> and \<open>send2\<close> say whether the first and the
  second \<^verbatim>\<open>client_socket.send\<close> raise. The result is the message written to the socket,
  or the exception that leaves the statement.
\<close>

definition send :: "exn option \<Rightarrow> bytes \<Rightarrow> exn + bytes" where
  "send outcome data = (case outcome of None \<Rightarrow> Inr data | Some e \<Rightarrow> Inl e)"

definition handle_message ::
  "pylib \<Rightarrow> (string \<rightharpoonup> callable) \<Rightarrow> bytes \<Rightarrow> exn option \<Rightarrow> exn option \<Rightarrow> exn + bytes" where
  "handle_message lib fs data send1 send2 =
     except_Exception
       (and_then (unpackb lib data) (\<lambda>request.
        and_then (process_request lib fs request) (\<lambda>response.
        and_then (packb lib (PDict response)) (\<lambda>response_data.
        send send1 response_data))))
       (\<lambda>e. and_then (packb lib (PDict (error_response lib e))) (\<lambda>error_data.
             send send2 error_data))"

text \<open>
  The threads of the server as a transition system. The listener thread runs \<^verbatim>\<open>run\<close>;
  each accepted connection has a handler thread that runs \<^verbatim>\<open>_handle_client\<close>. A thread
  is at the test of its \<^verbatim>\<open>while self.running\<close>, blocked in \<^verbatim>\<open>accept\<close> or \<^verbatim>\<open>recv\<close>, or
  has left its method. \<^verbatim>\<open>run\<close> is called at most once, and a \<^verbatim>\<open>send\<close> writes its whole
  message or raises.
\<close>

datatype handler_pc = LoopTest | Receiving | Finished

record handler =
  client_socket :: nat
  hpc :: handler_pc
  sent :: "bytes list"
  uncaught :: "exn option"

datatype accept_pc = NotStarted | AcceptTest | Accepting | Exited

record system =
  srv :: server
  open_sockets :: "nat set"
  apc :: accept_pc
  handlers :: "handler list"

text \<open>
  The events: a thread calls \<^verbatim>\<open>stop\<close>; \<^verbatim>\<open>run\<close> starts with a new listening socket and
  \<^verbatim>\<open>bind\<close>/\<^verbatim>\<open>listen\<close> raise or not; the listener tests its loop condition; \<^verbatim>\<open>accept\<close>
  returns a connection or raises; handler \<open>i\<close> tests its loop condition; the \<^verbatim>\<open>recv\<close> of
  handler \<open>i\<close> returns data or raises, with the outcomes of the sends that follow.
\<close>

datatype event =
    Stop
  | Run nat "exn option"
  | ListenerTest
  | Accept "exn + nat"
  | HandlerTest nat
  | Recv nat "exn + bytes" "exn option" "exn option"

definition system_stop :: "system \<Rightarrow> system" where
  "system_stop sys =
     sys\<lparr>srv := fst (stop (srv sys, open_sockets sys)),
         open_sockets := snd (stop (srv sys, open_sockets sys))\<rparr>"

text \<open>
  Leaving \<^verbatim>\<open>_handle_client\<close>: the \<^verbatim>\<open>finally\<close> clause closes the connection; an exception
  that is not an \<^verbatim>\<open>Exception\<close> leaves the method.
\<close>

definition handler_exit :: "exn option \<Rightarrow> nat \<Rightarrow> system \<Rightarrow> system" where
  "handler_exit e i sys =
     sys\<lparr>handlers := (handlers sys)
            [i := (handlers sys ! i)
                    \<lparr>hpc := Finished,
                     uncaught := (case e of
                                    None \<Rightarrow> None
                                  | Some x \<Rightarrow> if is_Exception (exc_class x) then None else Some x)\<rparr>],
         open_sockets := open_sockets sys - {client_socket (handlers sys ! i)}\<rparr>"

definition step :: "pylib \<Rightarrow> event \<Rightarrow> system \<Rightarrow> system" where
  "step lib ev sys =
     (case ev of
        Stop \<Rightarrow> system_stop sys
      | Run s failure \<Rightarrow>
          if apc sys \<noteq> NotStarted then sys
          else
            (let sys1 = sys\<lparr>srv := (srv sys)\<lparr>server_socket := Some s\<rparr>,
                             open_sockets := insert s (open_sockets sys)\<rparr>
             in case failure of
                  Some e \<Rightarrow> (system_stop sys1)\<lparr>apc := Exited\<rparr>
                | None \<Rightarrow> sys1\<lparr>srv := (srv sys1)\<lparr>running := True\<rparr>, apc := AcceptTest\<rparr>)
      | ListenerTest \<Rightarrow>
          if apc sys \<noteq> AcceptTest then sys
          else if running (srv sys) then sys\<lparr>apc := Accepting\<rparr>
          else (system_stop sys)\<lparr>apc := Exited\<rparr>
      | Accept r \<Rightarrow>
          if apc sys \<noteq> Accepting then sys
          else
            (case r of
               Inr c \<Rightarrow>
                 sys\<lparr>open_sockets := insert c (open_sockets sys),
                     handlers := handlers sys
                       @ [\<lparr>client_socket = c, hpc = LoopTest, sent = [], uncaught = None\<rparr>],
                     apc := AcceptTest\<rparr>
             | Inl e \<Rightarrow> (system_stop sys)\<lparr>apc := Exited\<rparr>)
      | HandlerTest i \<Rightarrow>
          if i < length (handlers sys) \<and> hpc (handlers sys ! i) = LoopTest
          then if running (srv sys)
               then sys\<lparr>handlers := (handlers sys)[i := (handlers sys ! i)\<lparr>hpc := Receiving\<rparr>]\<rparr>
               else handler_exit None i sys
          else sys
      | Recv i r send1 send2 \<Rightarrow>
          if i < length (handlers sys) \<and> hpc (handlers sys ! i) = Receiving
          then
            (case r of
               Inl e \<Rightarrow> handler_exit (Some e) i sys
             | Inr data \<Rightarrow>
                 if data = [] then handler_exit None i sys
                 else
                   (case handle_message lib (functions (srv sys)) data send1 send2 of
                      Inr out \<Rightarrow>
                        sys\<lparr>handlers := (handlers sys)
                               [i := (handlers sys ! i)
                                       \<lparr>hpc := LoopTest,
                                        sent := sent (handlers sys ! i) @ [out]\<rparr>]\<rparr>
                    | Inl e \<Rightarrow> handler_exit (Some e) i sys))
          else sys)"

fun run_events :: "pylib \<Rightarrow> event list \<Rightarrow> system \<Rightarrow> system" where
  "run_events lib [] sys = sys"
| "run_events lib (ev # evs) sys = run_events lib evs (step lib ev sys)"

text \<open>\<^verbatim>\<open>Server.__init__\<close>, before \<^verbatim>\<open>run\<close>.\<close>

definition new_system :: "(string \<rightharpoonup> callable) \<Rightarrow> system" where
  "new_system fs =
     \<lparr>srv = \<lparr>functions = fs, server_socket = None, running = False\<rparr>,
      open_sockets = {}, apc = NotStarted, handlers = []\<rparr>"

section \<open>Example data\<close>

text \<open>
  The functions that \<^verbatim>\<open>test_rpc.py\<close> binds as \<^verbatim>\<open>add\<close> and \<^verbatim>\<open>greet\<close>, on the arguments
  the examples pass them (any other call is a \<^verbatim>\<open>TypeError\<close>), and a function that ends
  the process with \<^verbatim>\<open>sys.exit\<close>.
\<close>

definition demo_add :: callable where
  "demo_add args kwargs =
     (case (args, kwargs) of
        ([PInt a, PInt b], []) \<Rightarrow> Inr (PInt (a + b))
      | _ \<Rightarrow> Inl (Exn TypeError ''<lambda>() got unexpected arguments''))"

definition demo_greet :: callable where
  "demo_greet args kwargs =
     (case (args, kwargs) of
        ([PStr name], []) \<Rightarrow> Inr (PStr (''Hello, '' @ name @ ''!''))
      | ([], [(k, PStr name)]) \<Rightarrow>
          if k = ''name'' then Inr (PStr (''Hello, '' @ name @ ''!''))
          else Inl (Exn TypeError ''<lambda>() got unexpected arguments'')
      | _ \<Rightarrow> Inl (Exn TypeError ''<lambda>() got unexpected arguments''))"

definition demo_shutdown :: callable where
  "demo_shutdown args kwargs = Inl (Exn SystemExit ''0'')"

definition demo_server :: server where
  "demo_server =
     bind (bind (bind \<lparr>functions = Map.empty, server_socket = None, running = False\<rparr>
       ''add'' demo_add) ''greet'' demo_greet) ''shutdown'' demo_shutdown"

text \<open>A codec that knows the messages of the examples, and simple stand-ins for the rest.\<close>

definition demo_messages :: "(bytes \<times> pyval) list" where
  "demo_messages =
     [(''Q1'', PDict [(''method'', PStr ''add''), (''params'', PList [PInt 5, PInt 3])]),
      (''R1'', PDict [(''result'', PInt 8)]),
      (''Q2'', PDict [(''method'', PStr ''nonexistent''), (''params'', PList [])]),
      (''R2'', PDict [(''error'', PStr (''Method '' @ apostrophe @ ''nonexistent'' @ apostrophe
                                       @ '' not found''))]),
      (''Q3'', PDict [(''method'', PStr ''add''), (''params'', PList [PInt 1])]),
      (''R3'', PDict [(''error'', PStr ''<lambda>() got unexpected arguments''),
                      (''traceback'', PStr ''Traceback: <lambda>() got unexpected arguments'')]),
      (''Q4'', PDict [(''method'', PStr ''shutdown''), (''params'', PList [])]),
      (''R5'', PDict [(''error'', PStr ''boom''), (''result'', PInt 1)])]"

definition demo_lib :: pylib where
  "demo_lib =
     \<lparr>repr = (\<lambda>v. case v of PNone \<Rightarrow> ''None'' | PBool b \<Rightarrow> (if b then ''True'' else ''False'')
                     | _ \<Rightarrow> ''<value>''),
      format_exc = (\<lambda>e. ''Traceback: '' @ exc_str e),
      packb = (\<lambda>v. case find (\<lambda>m. snd m = v) demo_messages of
                      Some m \<Rightarrow> Inr (fst m)
                    | None \<Rightarrow> Inl (Exn TypeError ''can not serialize'')),
      unpackb = (\<lambda>b. case map_of demo_messages b of
                        Some v \<Rightarrow> Inr v
                      | None \<Rightarrow> Inl (Exn ValueError ''Unpack failed'')),
      fault_text = (\<lambda>operation v. ''unsupported operand for '' @ operation),
      int_of_text = (\<lambda>v. Inl (Exn ValueError ''invalid literal for int()'')),
      int_of_float = (\<lambda>x. if x = 0 then Inr 0 else Inl (Exn OverflowError ''cannot convert'')),
      float_of_int = (\<lambda>i. if i = 0 then Inr 0 else Inl (Exn OverflowError ''int too large'')),
      float_of_text = (\<lambda>v. Inl (Exn ValueError ''could not convert string to float'')),
      dict_of_items = (\<lambda>xs. if xs = [] then Inr [] else Inl (Exn TypeError ''cannot convert''))\<rparr>"

text \<open>
  A server that has been started, with one accepted connection whose handler is at its
  loop test.
\<close>

definition demo_system :: system where
  "demo_system =
     run_events demo_lib [Run 3 None, ListenerTest, Accept (Inr 4)]
       (new_system (functions demo_server))"

text \<open>The same server once the handler has passed its loop test and waits in \<^verbatim>\<open>recv\<close>.\<close>

definition demo_receiving :: system where
  "demo_receiving = step demo_lib (HandlerTest 0) demo_system"

section \<open>Notions used in the proofs\<close>



section \<open>Theorems\<close>

lemma demo_functions:
  "functions demo_server ''add'' = Some demo_add"
  "functions demo_server ''greet'' = Some demo_greet"
  "functions demo_server ''shutdown'' = Some demo_shutdown"
  "functions demo_server ''nonexistent'' = None"
  by (simp_all add: demo_server_def bind_def)

lemma demo_system_eq:
  "demo_system =
     \<lparr>srv = \<lparr>functions = functions demo_server, server_socket = Some 3, running = True\<rparr>,
      open_sockets = {3, 4}, apc = AcceptTest,
      handlers = [\<lparr>client_socket = 4, hpc = LoopTest, sent = [], uncaught = None\<rparr>]\<rparr>"
  by (simp add: demo_system_def new_system_def step_def Let_def insert_commute)

lemma process_request_found:
  assumes "map_of d ''method'' = Some (PStr m)" and "fs m = Some f"
  shows "process_request lib fs (PDict d) =
     except_Exception
       (map_sum id (\<lambda>result. [(''result'', result)]) (invoke f (dict_get d ''params'' (PList []))))
       (\<lambda>e. Inr (error_response lib e))"
  using assms
  by (simp add: process_request_def process_request_try_def dict_get_def Let_def
      split: sum.splits)

lemma process_request_not_found:
  assumes "map_of d ''method'' = Some (PStr m)" and "fs m = None"
  shows "process_request lib fs (PDict d) =
     Inr [(''error'', PStr (''Method '' @ apostrophe @ m @ apostrophe @ '' not found''))]"
  using assms
  by (simp add: process_request_def process_request_try_def dict_get_def Let_def py_str_def
      except_Exception_def)

lemma call_through_handler:
  assumes "socket c \<noteq> None" and "fs m = Some f" and "f args [] = Inr v"
    and "packb lib (call_request m args []) = Inr request_data"
    and "unpackb lib request_data = Inr (call_request m args [])"
    and "packb lib (PDict [(''result'', v)]) = Inr response_data"
    and "unpackb lib response_data = Inr (PDict [(''result'', v)])"
  shows "call lib (\<lambda>data. handle_message lib fs data None None) c m args [] = Inr (RPCResult v)"
proof -
  have "process_request lib fs (call_request m args []) = Inr [(''result'', v)]"
    using assms(2,3)
    by (simp add: process_request_found call_request_def call_params_def dict_get_def invoke_def
        except_Exception_def)
  then have "handle_message lib fs request_data None None = Inr response_data"
    using assms(5,6) by (simp add: handle_message_def and_then_def except_Exception_def send_def)
  then show ?thesis
    using assms(1,4,7)
    by (simp add: call_def and_then_def check_response_def py_in_def py_get_result_def dict_get_def)
qed

text \<open>
  C1. For a method \<open>m\<close> bound to \<open>f\<close> and positional arguments \<open>args\<close> on which \<open>f\<close>
  returns \<open>v\<close>: the request that \<^verbatim>\<open>call(m, *args)\<close> builds, processed by
  \<^verbatim>\<open>_process_request\<close>, gives a response from which the client obtains the result
  wrapper of \<open>v\<close>. So does \<^verbatim>\<open>call\<close> itself on a connection to a handler of that server
  (which treats the non-empty read as one message), when the codec gives back the request
  and the response it has packed.
\<close>

theorem round_trip_positional:
  assumes "fs m = Some f" and "f args [] = Inr v"
  shows "and_then (process_request lib fs (call_request m args []))
           (\<lambda>response. check_response lib (PDict response)) = Inr (RPCResult v)
       \<and> (socket c \<noteq> None
            \<and> packb lib (call_request m args []) = Inr request_data
            \<and> request_data \<noteq> []
            \<and> unpackb lib request_data = Inr (call_request m args [])
            \<and> packb lib (PDict [(''result'', v)]) = Inr response_data
            \<and> unpackb lib response_data = Inr (PDict [(''result'', v)])
          \<longrightarrow> call lib (\<lambda>data. handle_message lib fs data None None) c m args []
                = Inr (RPCResult v))"
proof (intro conjI impI)
  show "and_then (process_request lib fs (call_request m args []))
           (\<lambda>response. check_response lib (PDict response)) = Inr (RPCResult v)"
    using assms
    by (simp add: process_request_found call_request_def call_params_def dict_get_def invoke_def
        except_Exception_def and_then_def check_response_def py_in_def py_get_result_def)
next
  assume "socket c \<noteq> None
            \<and> packb lib (call_request m args []) = Inr request_data
            \<and> request_data \<noteq> []
            \<and> unpackb lib request_data = Inr (call_request m args [])
            \<and> packb lib (PDict [(''result'', v)]) = Inr response_data
            \<and> unpackb lib response_data = Inr (PDict [(''result'', v)])"
  with assms
  show "call lib (\<lambda>data. handle_message lib fs data None None) c m args [] = Inr (RPCResult v)"
    using call_through_handler [where fs = fs and lib = lib and f = f] by blast
qed

theorem round_trip_positional_witness:
  "functions demo_server ''add'' = Some demo_add
   \<and> demo_add [PInt 5, PInt 3] [] = Inr (PInt 8)
   \<and> and_then (process_request demo_lib (functions demo_server)
                  (call_request ''add'' [PInt 5, PInt 3] []))
        (\<lambda>response. check_response demo_lib (PDict response)) = Inr (RPCResult (PInt 8))
   \<and> call demo_lib (\<lambda>data. handle_message demo_lib (functions demo_server) data None None)
        \<lparr>host = ''127.0.0.1'', port = 8081, socket = Some 5\<rparr> ''add'' [PInt 5, PInt 3] []
      = Inr (RPCResult (PInt 8))"
proof -
  have f: "functions demo_server ''add'' = Some demo_add" by (rule demo_functions)
  have v: "demo_add [PInt 5, PInt 3] [] = Inr (PInt 8)" by (simp add: demo_add_def)
  have c: "socket \<lparr>host = ''127.0.0.1'', port = 8081, socket = Some 5\<rparr> \<noteq> None
            \<and> packb demo_lib (call_request ''add'' [PInt 5, PInt 3] []) = Inr ''Q1''
            \<and> ''Q1'' \<noteq> []
            \<and> unpackb demo_lib ''Q1'' = Inr (call_request ''add'' [PInt 5, PInt 3] [])
            \<and> packb demo_lib (PDict [(''result'', PInt 8)]) = Inr ''R1''
            \<and> unpackb demo_lib ''R1'' = Inr (PDict [(''result'', PInt 8)])"
    by (simp add: demo_lib_def demo_messages_def call_request_def call_params_def)
  from round_trip_positional [where fs = "functions demo_server" and m = "''add''"
      and f = demo_add and args = "[PInt 5, PInt 3]" and v = "PInt 8" and lib = demo_lib
      and c = "\<lparr>host = ''127.0.0.1'', port = 8081, socket = Some 5\<rparr>"
      and request_data = "''Q1''" and response_data = "''R1''", OF f v] c
  have "and_then (process_request demo_lib (functions demo_server)
                  (call_request ''add'' [PInt 5, PInt 3] []))
        (\<lambda>response. check_response demo_lib (PDict response)) = Inr (RPCResult (PInt 8))"
    and "call demo_lib (\<lambda>data. handle_message demo_lib (functions demo_server) data None None)
        \<lparr>host = ''127.0.0.1'', port = 8081, socket = Some 5\<rparr> ''add'' [PInt 5, PInt 3] []
      = Inr (RPCResult (PInt 8))"
    by blast+
  with f v show ?thesis by blast
qed


text \<open>
  C5. For a request whose method is bound to \<open>f\<close>, the response is the outcome of
  \<open>f\<close> called with the elements of \<open>params\<close> as positional arguments when \<open>params\<close> is a
  list, with \<open>params\<close> as keyword arguments when it is a dictionary, with \<open>params\<close> as the
  single positional argument otherwise, and with no argument when the request has no
  \<open>params\<close>.
\<close>

theorem invoke_by_params_shape:
  assumes "map_of d ''method'' = Some (PStr m)" and "fs m = Some f"
  shows "(map_of d ''params'' = Some (PList xs) \<longrightarrow>
            process_request lib fs (PDict d) =
              except_Exception (map_sum id (\<lambda>result. [(''result'', result)]) (f xs []))
                (\<lambda>e. Inr (error_response lib e)))
       \<and> (map_of d ''params'' = Some (PDict kw) \<longrightarrow>
            process_request lib fs (PDict d) =
              except_Exception (map_sum id (\<lambda>result. [(''result'', result)]) (f [] kw))
                (\<lambda>e. Inr (error_response lib e)))
       \<and> (map_of d ''params'' = Some p \<and> (case p of PList _ \<Rightarrow> False | PDict _ \<Rightarrow> False | _ \<Rightarrow> True)
            \<longrightarrow>
            process_request lib fs (PDict d) =
              except_Exception (map_sum id (\<lambda>result. [(''result'', result)]) (f [p] []))
                (\<lambda>e. Inr (error_response lib e)))
       \<and> (map_of d ''params'' = None \<longrightarrow>
            process_request lib fs (PDict d) =
              except_Exception (map_sum id (\<lambda>result. [(''result'', result)]) (f [] []))
                (\<lambda>e. Inr (error_response lib e)))"
  using assms
  by (auto simp: process_request_found [where lib = lib] dict_get_def invoke_def split: pyval.splits)

theorem invoke_by_params_shape_witness:
  "map_of [(''method'', PStr ''greet''), (''params'', PDict [(''name'', PStr ''World'')])] ''method''
     = Some (PStr ''greet'')
   \<and> functions demo_server ''greet'' = Some demo_greet
   \<and> process_request demo_lib (functions demo_server)
        (PDict [(''method'', PStr ''greet''), (''params'', PDict [(''name'', PStr ''World'')])])
      = Inr [(''result'', PStr ''Hello, World!'')]"
proof -
  let ?d = "[(''method'', PStr ''greet''), (''params'', PDict [(''name'', PStr ''World'')])]"
  have a: "map_of ?d ''method'' = Some (PStr ''greet'')" by simp
  have b: "functions demo_server ''greet'' = Some demo_greet" by (rule demo_functions)
  have c: "map_of ?d ''params'' = Some (PDict [(''name'', PStr ''World'')])" by simp
  have g: "demo_greet [] [(''name'', PStr ''World'')] = Inr (PStr ''Hello, World!'')"
    by (simp add: demo_greet_def)
  from invoke_by_params_shape [where d = ?d and m = "''greet''" and fs = "functions demo_server"
      and f = demo_greet and lib = demo_lib and kw = "[(''name'', PStr ''World'')]", OF a b] c
  have "process_request demo_lib (functions demo_server) (PDict ?d) =
          except_Exception
            (map_sum id (\<lambda>result. [(''result'', result)]) (demo_greet [] [(''name'', PStr ''World'')]))
            (\<lambda>e. Inr (error_response demo_lib e))"
    by blast
  with a b g show ?thesis by (simp add: except_Exception_def)
qed

lemma error_response_keys: "map fst (error_response lib e) = [''error'', ''traceback'']"
  by (simp add: error_response_def)

lemma process_request_try_keys:
  assumes "process_request_try lib fs request = Inr response"
  shows "map fst response = [''error''] \<or> map fst response = [''result'']"
  using assms
  by (auto simp: process_request_try_def Let_def split: pyval.splits if_splits option.splits sum.splits)

lemma process_request_keys:
  assumes "process_request lib fs request = Inr response"
  shows "map fst response = [''error''] \<or> map fst response = [''result'']
         \<or> map fst response = [''error'', ''traceback'']"
proof (cases "process_request_try lib fs request")
  case (Inl e)
  with assms have "response = error_response lib e"
    by (simp add: process_request_def except_Exception_def split: if_splits)
  then show ?thesis by (simp add: error_response_keys)
next
  case (Inr r)
  with assms have "response = r"
    by (simp add: process_request_def except_Exception_def)
  with Inr process_request_try_keys show ?thesis by blast
qed

lemma handle_message_written:
  assumes "handle_message lib fs data send1 send2 = Inr out"
  shows "\<exists>response. packb lib (PDict response) = Inr out \<and>
           ((\<exists>request. process_request lib fs request = Inr response)
            \<or> (\<exists>e. response = error_response lib e))"
  using assms
  by (auto simp: handle_message_def except_Exception_def and_then_def send_def
      split: sum.splits if_splits option.splits)

text \<open>
  C2. Every response that \<^verbatim>\<open>_process_request\<close> returns, the response that the handler
  builds when decoding or processing fails, and so every message that a handler writes,
  has the key \<open>result\<close> or the key \<open>error\<close> and not both.
\<close>

theorem response_result_xor_error:
  "(process_request lib fs request = Inr response \<longrightarrow>
      (''result'' \<in> set (map fst response)) \<noteq> (''error'' \<in> set (map fst response)))
   \<and> (''result'' \<in> set (map fst (error_response lib e)))
       \<noteq> (''error'' \<in> set (map fst (error_response lib e)))
   \<and> (handle_message lib fs data send1 send2 = Inr out \<longrightarrow>
        (\<exists>written. packb lib (PDict written) = Inr out \<and>
           (''result'' \<in> set (map fst written)) \<noteq> (''error'' \<in> set (map fst written))))"
proof (intro conjI impI)
  assume "process_request lib fs request = Inr response"
  from process_request_keys [OF this]
  show "(''result'' \<in> set (map fst response)) \<noteq> (''error'' \<in> set (map fst response))"
    by auto
next
  show "(''result'' \<in> set (map fst (error_response lib e)))
       \<noteq> (''error'' \<in> set (map fst (error_response lib e)))"
    by (simp add: error_response_keys)
next
  assume "handle_message lib fs data send1 send2 = Inr out"
  from handle_message_written [OF this] obtain written where
    p: "packb lib (PDict written) = Inr out" and
    o: "(\<exists>request. process_request lib fs request = Inr written)
            \<or> (\<exists>e. written = error_response lib e)" by blast
  from o have "(''result'' \<in> set (map fst written)) \<noteq> (''error'' \<in> set (map fst written))"
  proof
    assume "\<exists>request. process_request lib fs request = Inr written"
    then obtain request where "process_request lib fs request = Inr written" ..
    from process_request_keys [OF this] show ?thesis by auto
  next
    assume "\<exists>e. written = error_response lib e"
    then obtain e where "written = error_response lib e" ..
    then show ?thesis by (simp add: error_response_keys)
  qed
  with p show "\<exists>written. packb lib (PDict written) = Inr out \<and>
           (''result'' \<in> set (map fst written)) \<noteq> (''error'' \<in> set (map fst written))"
    by blast
qed

lemma demo_process_add:
  "process_request demo_lib (functions demo_server)
     (PDict [(''method'', PStr ''add''), (''params'', PList [PInt 5, PInt 3])])
   = Inr [(''result'', PInt 8)]"
  by (simp add: process_request_found [where f = demo_add] demo_functions dict_get_def invoke_def
      demo_add_def except_Exception_def)

lemma demo_handle_messages:
  "handle_message demo_lib (functions demo_server) ''Q1'' None None = Inr ''R1''"
  "handle_message demo_lib (functions demo_server) ''Q2'' None None = Inr ''R2''"
  "handle_message demo_lib (functions demo_server) ''Q3'' None None = Inr ''R3''"
  "handle_message demo_lib (functions demo_server) ''Q4'' None None = Inl (Exn SystemExit ''0'')"
  by (simp_all add: handle_message_def demo_lib_def demo_messages_def demo_functions and_then_def
      except_Exception_def process_request_def process_request_try_def dict_get_def send_def
      demo_add_def demo_shutdown_def invoke_def py_str_def error_response_def)

theorem response_result_xor_error_witness:
  "process_request demo_lib (functions demo_server)
     (PDict [(''method'', PStr ''add''), (''params'', PList [PInt 5, PInt 3])])
     = Inr [(''result'', PInt 8)]
   \<and> (''result'' \<in> set (map fst [(''result'', PInt 8)]))
       \<noteq> (''error'' \<in> set (map fst [(''result'', PInt 8)]))
   \<and> handle_message demo_lib (functions demo_server) ''Q3'' None None = Inr ''R3''
   \<and> (\<exists>written. packb demo_lib (PDict written) = Inr ''R3'' \<and>
           (''result'' \<in> set (map fst written)) \<noteq> (''error'' \<in> set (map fst written)))"
  using response_result_xor_error [where lib = demo_lib and fs = "functions demo_server"
      and request = "PDict [(''method'', PStr ''add''), (''params'', PList [PInt 5, PInt 3])]"
      and response = "[(''result'', PInt 8)]" and data = "''Q3''" and ?send1.0 = None
      and ?send2.0 = None and out = "''R3''"]
    demo_process_add demo_handle_messages(3)
  by simp

lemma system_stop_simps [simp]:
  "running (srv (system_stop sys)) = False"
  "handlers (system_stop sys) = handlers sys"
  "apc (system_stop sys) = apc sys"
  "functions (srv (system_stop sys)) = functions (srv sys)"
  "open_sockets (system_stop sys) =
     (case server_socket (srv sys) of Some s \<Rightarrow> open_sockets sys - {s} | None \<Rightarrow> open_sockets sys)"
  by (simp_all add: system_stop_def stop_def split: option.splits)

lemma handler_exit_simps [simp]:
  "srv (handler_exit e i sys) = srv sys"
  "apc (handler_exit e i sys) = apc sys"
  "length (handlers (handler_exit e i sys)) = length (handlers sys)"
  "open_sockets (handler_exit e i sys) = open_sockets sys - {client_socket (handlers sys ! i)}"
  by (simp_all add: handler_exit_def)













lemma demo_receiving_eq:
  "demo_receiving =
     \<lparr>srv = \<lparr>functions = functions demo_server, server_socket = Some 3, running = True\<rparr>,
      open_sockets = {3, 4}, apc = AcceptTest,
      handlers = [\<lparr>client_socket = 4, hpc = Receiving, sent = [], uncaught = None\<rparr>]\<rparr>"
  by (simp add: demo_receiving_def demo_system_eq step_def)



lemma recv_served:
  assumes "i < length (handlers sys)" and "hpc (handlers sys ! i) = Receiving" and "data \<noteq> []"
    and "handle_message lib (functions (srv sys)) data send1 send2 = Inr out"
  shows "step lib (Recv i (Inr data) send1 send2) sys =
           sys\<lparr>handlers := (handlers sys)
                  [i := (handlers sys ! i)\<lparr>hpc := LoopTest, sent := sent (handlers sys ! i) @ [out]\<rparr>]\<rparr>"
  using assms by (simp add: step_def)

lemma handle_message_sends:
  assumes "unpackb lib data = Inr request" and "process_request lib fs request = Inr response"
    and "packb lib (PDict response) = Inr out"
  shows "handle_message lib fs data None send2 = Inr out"
  using assms by (simp add: handle_message_def and_then_def except_Exception_def send_def)

text \<open>
  C6. For a request that names a method \<open>m\<close> absent from the dispatch table,
  \<^verbatim>\<open>_process_request\<close> returns the failure response whose error text is
  \<^verbatim>\<open>Method 'm' not found\<close>, which contains \<open>m\<close>; and a handler that reads such a request and
  can send the response goes back to its loop test with the response written, its
  connection open and no exception raised.
\<close>

theorem method_not_found:
  assumes "map_of d ''method'' = Some (PStr m)" and "fs m = None"
  shows "process_request lib fs (PDict d)
           = Inr [(''error'', PStr (''Method '' @ apostrophe @ m @ apostrophe @ '' not found''))]
       \<and> sublist m (''Method '' @ apostrophe @ m @ apostrophe @ '' not found'')
       \<and> (i < length (handlers sys) \<and> hpc (handlers sys ! i) = Receiving
            \<and> functions (srv sys) = fs \<and> data \<noteq> [] \<and> unpackb lib data = Inr (PDict d)
            \<and> packb lib (PDict [(''error'',
                   PStr (''Method '' @ apostrophe @ m @ apostrophe @ '' not found''))]) = Inr out
          \<longrightarrow> step lib (Recv i (Inr data) None send2) sys =
                sys\<lparr>handlers := (handlers sys)
                  [i := (handlers sys ! i)
                          \<lparr>hpc := LoopTest, sent := sent (handlers sys ! i) @ [out]\<rparr>]\<rparr>)"
proof (intro conjI impI)
  show p: "process_request lib fs (PDict d)
           = Inr [(''error'', PStr (''Method '' @ apostrophe @ m @ apostrophe @ '' not found''))]"
    using assms by (rule process_request_not_found)
  have "sublist m ((''Method '' @ apostrophe) @ m @ (apostrophe @ '' not found''))"
    by (rule sublist_appendI)
  then show "sublist m (''Method '' @ apostrophe @ m @ apostrophe @ '' not found'')"
    by simp
  assume h: "i < length (handlers sys) \<and> hpc (handlers sys ! i) = Receiving
            \<and> functions (srv sys) = fs \<and> data \<noteq> [] \<and> unpackb lib data = Inr (PDict d)
            \<and> packb lib (PDict [(''error'',
                   PStr (''Method '' @ apostrophe @ m @ apostrophe @ '' not found''))]) = Inr out"
  then have "handle_message lib (functions (srv sys)) data None send2 = Inr out"
    using p handle_message_sends [of lib data "PDict d" fs _ out send2] by simp
  with h show "step lib (Recv i (Inr data) None send2) sys =
                sys\<lparr>handlers := (handlers sys)
                  [i := (handlers sys ! i)
                          \<lparr>hpc := LoopTest, sent := sent (handlers sys ! i) @ [out]\<rparr>]\<rparr>"
    by (simp add: recv_served)
qed

theorem method_not_found_witness:
  "map_of [(''method'', PStr ''nonexistent''), (''params'', PList [])] ''method''
     = Some (PStr ''nonexistent'')
   \<and> functions demo_server ''nonexistent'' = None
   \<and> process_request demo_lib (functions demo_server)
        (PDict [(''method'', PStr ''nonexistent''), (''params'', PList [])])
      = Inr [(''error'', PStr (''Method '' @ apostrophe @ ''nonexistent'' @ apostrophe @ '' not found''))]
   \<and> step demo_lib (Recv 0 (Inr ''Q2'') None None) demo_receiving =
        demo_receiving\<lparr>handlers := (handlers demo_receiving)
          [0 := (handlers demo_receiving ! 0)
                  \<lparr>hpc := LoopTest, sent := sent (handlers demo_receiving ! 0) @ [''R2'']\<rparr>]\<rparr>
   \<and> 4 \<in> open_sockets (step demo_lib (Recv 0 (Inr ''Q2'') None None) demo_receiving)"
proof -
  have a: "map_of [(''method'', PStr ''nonexistent''), (''params'', PList [])] ''method''
     = Some (PStr ''nonexistent'')" by simp
  have b: "functions demo_server ''nonexistent'' = None" by (rule demo_functions)
  have c: "0 < length (handlers demo_receiving) \<and> hpc (handlers demo_receiving ! 0) = Receiving
        \<and> functions (srv demo_receiving) = functions demo_server \<and> ''Q2'' \<noteq> []
        \<and> unpackb demo_lib ''Q2'' = Inr (PDict [(''method'', PStr ''nonexistent''), (''params'', PList [])])
        \<and> packb demo_lib (PDict [(''error'',
             PStr (''Method '' @ apostrophe @ ''nonexistent'' @ apostrophe @ '' not found''))]) = Inr ''R2''"
    by (simp add: demo_receiving_eq demo_lib_def demo_messages_def apostrophe_def)
  have o: "open_sockets demo_receiving = {3, 4}" by (simp add: demo_receiving_eq)
  from method_not_found [where d = "[(''method'', PStr ''nonexistent''), (''params'', PList [])]"
      and m = "''nonexistent''" and fs = "functions demo_server" and lib = demo_lib and i = 0
      and sys = demo_receiving and data = "''Q2''" and out = "''R2''" and ?send2.0 = None,
      OF a b] c
  have "process_request demo_lib (functions demo_server)
        (PDict [(''method'', PStr ''nonexistent''), (''params'', PList [])])
      = Inr [(''error'', PStr (''Method '' @ apostrophe @ ''nonexistent'' @ apostrophe @ '' not found''))]"
    and s: "step demo_lib (Recv 0 (Inr ''Q2'') None None) demo_receiving =
        demo_receiving\<lparr>handlers := (handlers demo_receiving)
          [0 := (handlers demo_receiving ! 0)
                  \<lparr>hpc := LoopTest, sent := sent (handlers demo_receiving ! 0) @ [''R2'']\<rparr>]\<rparr>"
    by blast+
  moreover have "4 \<in> open_sockets (step demo_lib (Recv 0 (Inr ''Q2'') None None) demo_receiving)"
    by (simp only: s) (simp add: o)
  ultimately show ?thesis using a b by blast
qed

text \<open>
  C7, in the form that holds of the code. When the bound function raises an exception \<open>e\<close> that is an instance of
  \<^verbatim>\<open>Exception\<close>, \<^verbatim>\<open>_process_request\<close> returns the failure response whose \<open>error\<close> is
  \<^verbatim>\<open>str(e)\<close> and whose \<open>traceback\<close> is the formatted trace; and a handler that reads such a
  request and can send the response goes back to its loop test with the response written
  and its connection open.
\<close>

theorem application_failure_reported:
  assumes "map_of d ''method'' = Some (PStr m)" and "fs m = Some f"
    and "invoke f (dict_get d ''params'' (PList [])) = Inl e"
    and "is_Exception (exc_class e)"
  shows "process_request lib fs (PDict d)
           = Inr [(''error'', PStr (exc_str e)), (''traceback'', PStr (format_exc lib e))]
       \<and> (i < length (handlers sys) \<and> hpc (handlers sys ! i) = Receiving
            \<and> functions (srv sys) = fs \<and> data \<noteq> [] \<and> unpackb lib data = Inr (PDict d)
            \<and> packb lib (PDict [(''error'', PStr (exc_str e)),
                                 (''traceback'', PStr (format_exc lib e))]) = Inr out
          \<longrightarrow> step lib (Recv i (Inr data) None send2) sys =
                sys\<lparr>handlers := (handlers sys)
                  [i := (handlers sys ! i)
                          \<lparr>hpc := LoopTest, sent := sent (handlers sys ! i) @ [out]\<rparr>]\<rparr>)"
proof (intro conjI impI)
  show p: "process_request lib fs (PDict d)
           = Inr [(''error'', PStr (exc_str e)), (''traceback'', PStr (format_exc lib e))]"
    using assms
    by (simp add: process_request_found [where f = f] except_Exception_def error_response_def)
  assume h: "i < length (handlers sys) \<and> hpc (handlers sys ! i) = Receiving
            \<and> functions (srv sys) = fs \<and> data \<noteq> [] \<and> unpackb lib data = Inr (PDict d)
            \<and> packb lib (PDict [(''error'', PStr (exc_str e)),
                                 (''traceback'', PStr (format_exc lib e))]) = Inr out"
  then have "handle_message lib (functions (srv sys)) data None send2 = Inr out"
    using p handle_message_sends [of lib data "PDict d" fs _ out send2] by simp
  with h show "step lib (Recv i (Inr data) None send2) sys =
                sys\<lparr>handlers := (handlers sys)
                  [i := (handlers sys ! i)
                          \<lparr>hpc := LoopTest, sent := sent (handlers sys ! i) @ [out]\<rparr>]\<rparr>"
    by (simp add: recv_served)
qed

theorem application_failure_reported_witness:
  "map_of [(''method'', PStr ''add''), (''params'', PList [PInt 1])] ''method'' = Some (PStr ''add'')
   \<and> functions demo_server ''add'' = Some demo_add
   \<and> invoke demo_add (dict_get [(''method'', PStr ''add''), (''params'', PList [PInt 1])]
        ''params'' (PList [])) = Inl (Exn TypeError ''<lambda>() got unexpected arguments'')
   \<and> is_Exception (exc_class (Exn TypeError ''<lambda>() got unexpected arguments''))
   \<and> process_request demo_lib (functions demo_server)
        (PDict [(''method'', PStr ''add''), (''params'', PList [PInt 1])])
      = Inr [(''error'', PStr ''<lambda>() got unexpected arguments''),
             (''traceback'', PStr ''Traceback: <lambda>() got unexpected arguments'')]
   \<and> step demo_lib (Recv 0 (Inr ''Q3'') None None) demo_receiving =
        demo_receiving\<lparr>handlers := (handlers demo_receiving)
          [0 := (handlers demo_receiving ! 0)
                  \<lparr>hpc := LoopTest, sent := sent (handlers demo_receiving ! 0) @ [''R3'']\<rparr>]\<rparr>
   \<and> 4 \<in> open_sockets (step demo_lib (Recv 0 (Inr ''Q3'') None None) demo_receiving)"
proof -
  let ?e = "Exn TypeError ''<lambda>() got unexpected arguments''"
  let ?d = "[(''method'', PStr ''add''), (''params'', PList [PInt 1])]"
  have a: "map_of ?d ''method'' = Some (PStr ''add'')" by simp
  have b: "functions demo_server ''add'' = Some demo_add" by (rule demo_functions)
  have r: "invoke demo_add (dict_get ?d ''params'' (PList [])) = Inl ?e"
    by (simp add: invoke_def dict_get_def demo_add_def)
  have x: "is_Exception (exc_class ?e)" by simp
  have f: "format_exc demo_lib ?e = ''Traceback: <lambda>() got unexpected arguments''"
    by (simp add: demo_lib_def)
  have c: "0 < length (handlers demo_receiving) \<and> hpc (handlers demo_receiving ! 0) = Receiving
        \<and> functions (srv demo_receiving) = functions demo_server \<and> ''Q3'' \<noteq> []
        \<and> unpackb demo_lib ''Q3'' = Inr (PDict ?d)
        \<and> packb demo_lib (PDict [(''error'', PStr (exc_str ?e)),
                                  (''traceback'', PStr (format_exc demo_lib ?e))]) = Inr ''R3''"
    by (simp add: demo_receiving_eq demo_lib_def demo_messages_def)
  have o: "open_sockets demo_receiving = {3, 4}" by (simp add: demo_receiving_eq)
  from application_failure_reported [where d = ?d and m = "''add''"
      and fs = "functions demo_server" and f = demo_add and e = ?e and lib = demo_lib and i = 0
      and sys = demo_receiving and data = "''Q3''" and out = "''R3''" and ?send2.0 = None,
      OF a b r x] c
  have p: "process_request demo_lib (functions demo_server) (PDict ?d)
      = Inr [(''error'', PStr (exc_str ?e)), (''traceback'', PStr (format_exc demo_lib ?e))]"
    and s: "step demo_lib (Recv 0 (Inr ''Q3'') None None) demo_receiving =
        demo_receiving\<lparr>handlers := (handlers demo_receiving)
          [0 := (handlers demo_receiving ! 0)
                  \<lparr>hpc := LoopTest, sent := sent (handlers demo_receiving ! 0) @ [''R3'']\<rparr>]\<rparr>"
    by blast+
  have "4 \<in> open_sockets (step demo_lib (Recv 0 (Inr ''Q3'') None None) demo_receiving)"
    by (simp only: s) (simp add: o)
  with a b r x p s f show ?thesis by simp
qed

theorem application_failure_counterexample:
  "functions demo_server ''shutdown'' = Some demo_shutdown
   \<and> invoke demo_shutdown (PList []) = Inl (Exn SystemExit ''0'')
   \<and> process_request demo_lib (functions demo_server)
        (PDict [(''method'', PStr ''shutdown''), (''params'', PList [])])
      = Inl (Exn SystemExit ''0'')
   \<and> unpackb demo_lib ''Q4'' = Inr (PDict [(''method'', PStr ''shutdown''), (''params'', PList [])])
   \<and> hpc (handlers demo_receiving ! 0) = Receiving
   \<and> 4 \<in> open_sockets demo_receiving
   \<and> handlers (step demo_lib (Recv 0 (Inr ''Q4'') None None) demo_receiving)
        = [\<lparr>client_socket = 4, hpc = Finished, sent = [],
            uncaught = Some (Exn SystemExit ''0'')\<rparr>]
   \<and> 4 \<notin> open_sockets (step demo_lib (Recv 0 (Inr ''Q4'') None None) demo_receiving)"
  by (simp add: demo_functions invoke_def demo_shutdown_def process_request_found [where f = demo_shutdown]
      dict_get_def except_Exception_def demo_receiving_eq step_def demo_handle_messages
      handler_exit_def)
     (simp add: demo_lib_def demo_messages_def)

text \<open>
  C8. \<^verbatim>\<open>close\<close> on a client without a socket returns without raising and changes nothing,
  whatever the socket layer would do; after a \<^verbatim>\<open>close\<close> that returned, the client has no
  socket and a second \<^verbatim>\<open>close\<close> returns without raising and leaves the state of the
  first; and \<^verbatim>\<open>close\<close> returns whenever the socket layer does not fail.
\<close>

theorem close_idempotent:
  "(socket (fst st) = None \<longrightarrow> close failure st = Inr st)
   \<and> (close failure st = Inr st' \<longrightarrow>
        socket (fst st') = None \<and> close failure' st' = Inr st')
   \<and> (\<exists>st'. close None st = Inr st')"
  by (auto simp: close_def split: option.splits)

theorem close_idempotent_witness:
  "close None (\<lparr>host = ''127.0.0.1'', port = 8081, socket = Some 5\<rparr>, {5, 6})
     = Inr (\<lparr>host = ''127.0.0.1'', port = 8081, socket = None\<rparr>, {6})
   \<and> socket (fst (\<lparr>host = ''127.0.0.1'', port = 8081, socket = None\<rparr>, {6::nat})) = None
   \<and> close (Some (Exn OSError ''Bad file descriptor''))
        (\<lparr>host = ''127.0.0.1'', port = 8081, socket = None\<rparr>, {6})
     = Inr (\<lparr>host = ''127.0.0.1'', port = 8081, socket = None\<rparr>, {6})"
proof -
  have c: "close None (\<lparr>host = ''127.0.0.1'', port = 8081, socket = Some 5\<rparr>, {5, 6})
     = Inr (\<lparr>host = ''127.0.0.1'', port = 8081, socket = None\<rparr>, {6})"
    by (simp add: close_def)
  from close_idempotent [where failure = None
      and st = "(\<lparr>host = ''127.0.0.1'', port = 8081, socket = Some 5\<rparr>, {5, 6})"
      and st' = "(\<lparr>host = ''127.0.0.1'', port = 8081, socket = None\<rparr>, {6})"
      and failure' = "Some (Exn OSError ''Bad file descriptor'')"] c
  show ?thesis by simp
qed

lemma py_iadd_cases:
  "(\<exists>w. py_iadd lib v t = Inr w) \<or> py_iadd lib v t = Inl (Exn TypeError (fault_text lib ''iadd'' v))"
  by (cases v) (simp_all add: py_iadd_def)

lemma check_response_error:
  assumes "''error'' \<in> set (map fst d)"
  shows "\<exists>msg. check_response lib (PDict d) = Inl (Exn RuntimeError msg)
           \<or> check_response lib (PDict d) = Inl (Exn TypeError msg)"
proof -
  from assms obtain v where v: "map_of d ''error'' = Some v"
    by (metis list.set_map map_of_eq_None_iff not_Some_eq)
  have e: "py_in lib ''error'' (PDict d) = Inr True"
    using assms by (simp add: py_in_def)
  have g: "py_getitem lib (PDict d) ''error'' = Inr v"
    by (simp add: py_getitem_def v)
  show ?thesis
  proof (cases "''traceback'' \<in> set (map fst d)")
    case False
    then have "py_in lib ''traceback'' (PDict d) = Inr False"
      by (simp add: py_in_def)
    with e g show ?thesis
      by (simp add: check_response_def and_then_def)
  next
    case True
    then obtain t where t: "map_of d ''traceback'' = Some t"
      by (metis list.set_map map_of_eq_None_iff not_Some_eq)
    have i: "py_in lib ''traceback'' (PDict d) = Inr True"
      using True by (simp add: py_in_def)
    have gt: "py_getitem lib (PDict d) ''traceback'' = Inr t"
      by (simp add: py_getitem_def t)
    from py_iadd_cases [of lib v "[CHR 0x0A] @ ''Server traceback:'' @ [CHR 0x0A] @ py_str lib t"]
    show ?thesis
    proof
      assume "\<exists>w. py_iadd lib v ([CHR 0x0A] @ ''Server traceback:'' @ [CHR 0x0A] @ py_str lib t) = Inr w"
      then obtain w where
        "py_iadd lib v ([CHR 0x0A] @ ''Server traceback:'' @ [CHR 0x0A] @ py_str lib t) = Inr w" ..
      with e g i gt show ?thesis
        by (simp add: check_response_def and_then_def)
    next
      assume "py_iadd lib v ([CHR 0x0A] @ ''Server traceback:'' @ [CHR 0x0A] @ py_str lib t)
                = Inl (Exn TypeError (fault_text lib ''iadd'' v))"
      with e g i gt show ?thesis
        by (simp add: check_response_def and_then_def)
    qed
  qed
qed

lemma check_response_no_error:
  assumes "''error'' \<notin> set (map fst d)"
  shows "check_response lib (PDict d) = Inr (RPCResult (dict_get d ''result'' PNone))"
  using assms by (simp add: check_response_def and_then_def py_in_def py_get_result_def)

lemma call_received:
  assumes "socket c \<noteq> None" and "packb lib (call_request m args kwargs) = Inr request_data"
    and "wire request_data = Inr response_data" and "unpackb lib response_data = Inr response"
  shows "call lib wire c m args kwargs =
     (case check_response lib response of
        Inr r \<Rightarrow> Inr r
      | Inl e \<Rightarrow>
          if is_socket_error (exc_class e)
          then Inl (Exn ConnectionError (''Communication error: '' @ exc_str e))
          else if is_Exception (exc_class e)
          then Inl (Exn RuntimeError (''Call failed: '' @ exc_str e))
          else Inl e)"
  using assms by (auto simp: call_def and_then_def)

text \<open>
  C10. When the decoded response is a dictionary: if it has the key \<open>error\<close>, \<^verbatim>\<open>call\<close>
  raises a \<^verbatim>\<open>RuntimeError\<close>, whether or not \<open>result\<close> is present; otherwise it returns the
  wrapper of the value of \<open>result\<close>, which is \<^verbatim>\<open>None\<close> when that key is missing too.
\<close>

theorem call_error_takes_precedence:
  assumes "socket c \<noteq> None" and "packb lib (call_request m args kwargs) = Inr request_data"
    and "wire request_data = Inr response_data" and "unpackb lib response_data = Inr (PDict d)"
  shows "(''error'' \<in> set (map fst d) \<longrightarrow>
            (\<exists>msg. call lib wire c m args kwargs = Inl (Exn RuntimeError msg)))
       \<and> (''error'' \<notin> set (map fst d) \<longrightarrow>
            call lib wire c m args kwargs = Inr (RPCResult (dict_get d ''result'' PNone)))
       \<and> (''error'' \<notin> set (map fst d) \<and> ''result'' \<notin> set (map fst d) \<longrightarrow>
            call lib wire c m args kwargs = Inr (RPCResult PNone))"
proof -
  note r = call_received [where wire = wire and lib = lib, OF assms]
  show ?thesis
proof (intro conjI impI)
  assume "''error'' \<in> set (map fst d)"
  from check_response_error [OF this, of lib] obtain msg where
    "check_response lib (PDict d) = Inl (Exn RuntimeError msg)
       \<or> check_response lib (PDict d) = Inl (Exn TypeError msg)" ..
  then show "\<exists>msg. call lib wire c m args kwargs = Inl (Exn RuntimeError msg)"
    by (auto simp: r)
next
  assume "''error'' \<notin> set (map fst d)"
  then show "call lib wire c m args kwargs = Inr (RPCResult (dict_get d ''result'' PNone))"
    by (simp add: r check_response_no_error)
next
  assume a: "''error'' \<notin> set (map fst d) \<and> ''result'' \<notin> set (map fst d)"
  then have "map_of d ''result'' = None"
    by (simp add: map_of_eq_None_iff)
  with a show "call lib wire c m args kwargs = Inr (RPCResult PNone)"
    by (simp add: r check_response_no_error dict_get_def)
qed
qed

theorem call_error_takes_precedence_witness:
  "socket \<lparr>host = ''127.0.0.1'', port = 8081, socket = Some 5\<rparr> \<noteq> None
   \<and> packb demo_lib (call_request ''add'' [PInt 5, PInt 3] []) = Inr ''Q1''
   \<and> unpackb demo_lib ''R5'' = Inr (PDict [(''error'', PStr ''boom''), (''result'', PInt 1)])
   \<and> ''error'' \<in> set (map fst [(''error'', PStr ''boom''), (''result'', PInt 1)])
   \<and> ''result'' \<in> set (map fst [(''error'', PStr ''boom''), (''result'', PInt 1)])
   \<and> (\<exists>msg. call demo_lib (\<lambda>request_data. Inr ''R5'')
                 \<lparr>host = ''127.0.0.1'', port = 8081, socket = Some 5\<rparr> ''add'' [PInt 5, PInt 3] []
               = Inl (Exn RuntimeError msg))"
proof -
  have a: "socket \<lparr>host = ''127.0.0.1'', port = 8081, socket = Some 5\<rparr> \<noteq> None" by simp
  have b: "packb demo_lib (call_request ''add'' [PInt 5, PInt 3] []) = Inr ''Q1''"
    by (simp add: demo_lib_def demo_messages_def call_request_def call_params_def)
  have w: "(\<lambda>request_data. Inr ''R5'' :: exn + bytes) ''Q1'' = Inr ''R5''" by simp
  have u: "unpackb demo_lib ''R5'' = Inr (PDict [(''error'', PStr ''boom''), (''result'', PInt 1)])"
    by (simp add: demo_lib_def demo_messages_def)
  from call_error_takes_precedence [where c = "\<lparr>host = ''127.0.0.1'', port = 8081, socket = Some 5\<rparr>"
      and lib = demo_lib and m = "''add''" and args = "[PInt 5, PInt 3]" and kwargs = "[]"
      and request_data = "''Q1''" and wire = "\<lambda>request_data. Inr ''R5''"
      and response_data = "''R5''" and d = "[(''error'', PStr ''boom''), (''result'', PInt 1)]",
      OF a b w u]
  show ?thesis using a b u by simp
qed


end
